theory Spec2Isabelle
  imports Complex_Main
begin

section \<open>The product catalogue server\<close>

text \<open>
  \<^verbatim>\<open>server.js\<close> holds two variants of one Express server, separated by a document
  separator: the code before it (variant 1, lines 1 to 154) and the code after it
  (variant 2, lines 155 to 326). Each registers four routes on \<^verbatim>\<open>/products\<close>. The
  handlers are embedded below as functions from the request and the state of the world
  (document store, upload directory, console) to the response and the new state.
  Definitions that both variants share word for word (schema, multer storage) are
  written once.
\<close>

subsection \<open>Data\<close>

text \<open>
  A document of the \<^verbatim>\<open>products\<close> collection, after \<^verbatim>\<open>productSchema\<close>. The
  identifier is opaque; a natural number stands for its value, and a request names it by
  its string form (see \<open>castObjectId\<close>). \<^verbatim>\<open>price\<close> is only stored and
  returned, never computed with, so rationals stand for the schema's \<^verbatim>\<open>Number\<close>.
  \<^verbatim>\<open>image\<close> is \<open>None\<close> for \<^verbatim>\<open>null\<close>.
\<close>

type_synonym oid = nat

record product =
  doc_id :: oid
  name :: string
  price :: rat
  description :: string
  image_url :: "string option"

text \<open>
  JavaScript truthiness of \<^verbatim>\<open>product.image\<close>: \<^verbatim>\<open>null\<close> and the empty string are
  falsy, every other string is truthy.
\<close>

fun truthy :: "string option \<Rightarrow> bool" where
  "truthy None = False"
| "truthy (Some s) = (s \<noteq> [])"

datatype error = ValidationError | CastError | StoreUnreachable | ReferenceError

datatype fs_error = ENOENT | EPERM

datatype log_line = LogFs string fs_error | LogError string error

text \<open>\<^verbatim>\<open>req.body\<close>: the three form fields, each possibly absent.\<close>

record form =
  body_name :: "string option"
  body_price :: "rat option"
  body_description :: "string option"

text \<open>
  What a handler reads of the request: \<^verbatim>\<open>req.protocol\<close>, \<^verbatim>\<open>req.get('host')\<close>,
  \<^verbatim>\<open>req.params.id\<close> (the text of the last segment of the URL, whatever it is),
  \<^verbatim>\<open>req.body\<close>, and the original name of the file sent in the field \<^verbatim>\<open>image\<close>, if
  one was sent.
\<close>

record request =
  protocol :: string
  host :: string
  params_id :: string
  body :: form
  image_file :: "string option"

text \<open>
  The document store. \<^verbatim>\<open>mongoose.connect(uri)\<close> may fail; the failure is only
  logged and the server keeps serving, so a handler can meet a store that is not
  connected.
\<close>

record store =
  connected :: bool
  docs :: "product list"
  next_id :: oid

text \<open>
  The world a handler acts on: the store, the files under the server's directory
  (named by their path below it, as in \<^verbatim>\<open>path.join(__dirname, product.image)\<close>), the
  files the process is not permitted to remove, and the lines written by
  \<^verbatim>\<open>console.error\<close>.
\<close>

record world =
  db :: store
  files :: "string list"
  undeletable :: "string list"
  console :: "log_line list"

datatype payload =
    JDoc product
  | JDocs "product list"
  | JMessage string
  | JError error
  | JFailure string error

record response =
  status :: nat
  json :: payload

definition respond :: "nat \<Rightarrow> payload \<Rightarrow> response" where
  "respond s j = \<lparr>status = s, json = j\<rparr>"

subsection \<open>The document store\<close>

text \<open>
  Modelled from the spec: the mongoose model \<^verbatim>\<open>productModel\<close> is a library object,
  not code of \<^verbatim>\<open>server.js\<close>. Its operations follow section 4.3 of the specification
  (create, list, updateById merging the provided fields, deleteById) and the schema of
  the source (\<^verbatim>\<open>name\<close>, \<^verbatim>\<open>price\<close>, \<^verbatim>\<open>description\<close> required). An operation on a
  store that is not connected throws. Identifiers are unique in a collection, so
  the documents with a given id are at most one. The handlers pass the text of
  \<^verbatim>\<open>req.params.id\<close> to the operations that take an id; the store casts it to an
  identifier and throws a cast error when its format is malformed (section 7 of the
  specification). The string form of an identifier is 24 hexadecimal digits, read
  by \<open>castObjectId\<close>; every other text is malformed.
\<close>

definition hex_digit :: "char \<Rightarrow> nat option" where
  "hex_digit c =
     (let n = (of_char c :: nat) in
      if 48 \<le> n \<and> n \<le> 57 then Some (n - 48)
      else if 97 \<le> n \<and> n \<le> 102 then Some (n - 87)
      else if 65 \<le> n \<and> n \<le> 70 then Some (n - 55)
      else None)"

fun hex_value :: "nat \<Rightarrow> string \<Rightarrow> nat option" where
  "hex_value acc [] = Some acc"
| "hex_value acc (c # cs) =
     (case hex_digit c of None \<Rightarrow> None | Some d \<Rightarrow> hex_value (16 * acc + d) cs)"

definition castObjectId :: "string \<Rightarrow> oid option" where
  "castObjectId s = (if length s = 24 then hex_value 0 s else None)"

definition save :: "store \<Rightarrow> form \<Rightarrow> string option \<Rightarrow> error + product \<times> store" where
  "save st f img =
     (case (body_name f, body_price f, body_description f) of
        (Some n, Some p, Some d) \<Rightarrow>
          if n = [] \<or> d = [] then Inl ValidationError
          else if connected st then
            (let doc = \<lparr>doc_id = next_id st, name = n, price = p, description = d,
                        image_url = img\<rparr>
             in Inr (doc, st\<lparr>docs := docs st @ [doc], next_id := Suc (next_id st)\<rparr>))
          else Inl StoreUnreachable
      | _ \<Rightarrow> Inl ValidationError)"

definition find_all :: "store \<Rightarrow> error + product list" where
  "find_all st = (if connected st then Inr (docs st) else Inl StoreUnreachable)"

definition findById :: "store \<Rightarrow> string \<Rightarrow> error + product option" where
  "findById st id_text =
     (case castObjectId id_text of
        None \<Rightarrow> Inl CastError
      | Some i \<Rightarrow>
          if connected st then Inr (find (\<lambda>p. doc_id p = i) (docs st))
          else Inl StoreUnreachable)"

text \<open>The object \<^verbatim>\<open>updatedData\<close>: a key that is \<^verbatim>\<open>undefined\<close> is \<open>None\<close>.\<close>

record update_data =
  upd_name :: "string option"
  upd_price :: "rat option"
  upd_description :: "string option"
  upd_image :: "string option"

definition merge_fields :: "update_data \<Rightarrow> product \<Rightarrow> product" where
  "merge_fields u p =
     p\<lparr>name := (case upd_name u of None \<Rightarrow> name p | Some n \<Rightarrow> n),
       price := (case upd_price u of None \<Rightarrow> price p | Some x \<Rightarrow> x),
       description := (case upd_description u of None \<Rightarrow> description p | Some d \<Rightarrow> d),
       image_url := (case upd_image u of None \<Rightarrow> image_url p | Some s \<Rightarrow> Some s)\<rparr>"

definition findByIdAndUpdate ::
  "store \<Rightarrow> string \<Rightarrow> update_data \<Rightarrow> error + product option \<times> store" where
  "findByIdAndUpdate st id_text u =
     (case castObjectId id_text of
        None \<Rightarrow> Inl CastError
      | Some i \<Rightarrow>
          if connected st then
            (case find (\<lambda>p. doc_id p = i) (docs st) of
               None \<Rightarrow> Inr (None, st)
             | Some p \<Rightarrow>
                 Inr (Some (merge_fields u p),
                      st\<lparr>docs := map (\<lambda>q. if doc_id q = i then merge_fields u q else q)
                                     (docs st)\<rparr>))
          else Inl StoreUnreachable)"

definition findByIdAndDelete :: "store \<Rightarrow> string \<Rightarrow> error + product option \<times> store" where
  "findByIdAndDelete st id_text =
     (case castObjectId id_text of
        None \<Rightarrow> Inl CastError
      | Some i \<Rightarrow>
          if connected st then
            (case find (\<lambda>p. doc_id p = i) (docs st) of
               None \<Rightarrow> Inr (None, st)
             | Some p \<Rightarrow> Inr (Some p, st\<lparr>docs := filter (\<lambda>q. doc_id q \<noteq> i) (docs st)\<rparr>))
          else Inl StoreUnreachable)"

subsection \<open>The upload directory\<close>

text \<open>
  \<^verbatim>\<open>fs.unlink(path, callback)\<close>: the file is removed, or the callback receives an
  error (no such file, or removal not permitted). The callback of the source writes
  the error to the console and does nothing else. The model runs the callback at
  once; the source runs it later, after the response.
\<close>

definition unlink :: "string \<Rightarrow> world \<Rightarrow> fs_error option \<times> world" where
  "unlink p w =
     (if p \<in> set (files w) then
        (if p \<in> set (undeletable w) then (Some EPERM, w)
         else (None, w\<lparr>files := removeAll p (files w)\<rparr>))
      else (Some ENOENT, w))"

definition unlink_logged :: "string \<Rightarrow> string \<Rightarrow> world \<Rightarrow> world" where
  "unlink_logged msg p w =
     (case unlink p w of
        (None, w') \<Rightarrow> w'
      | (Some err, w') \<Rightarrow> w'\<lparr>console := console w' @ [LogFs msg err]\<rparr>)"

text \<open>Decimal digits of \<^verbatim>\<open>Date.now()\<close>, as the template literal prints them.\<close>

definition digit :: "nat \<Rightarrow> char" where
  "digit d = ''0123456789'' ! d"

function dec :: "nat \<Rightarrow> string" where
  "dec n = (if n < 10 then [digit n] else dec (n div 10) @ [digit (n mod 10)])"
  by pat_completeness auto
termination
  by (relation "measure (\<lambda>n. n)") auto

declare dec.simps [simp del]

text \<open>The \<^verbatim>\<open>filename\<close> function of \<^verbatim>\<open>multer.diskStorage\<close>.\<close>

definition filename :: "nat \<Rightarrow> string \<Rightarrow> string" where
  "filename now originalname = dec now @ ''-'' @ originalname"

text \<open>
  The middleware \<^verbatim>\<open>upload.single("image")\<close>: it runs before the handler, writes the
  file (if the request has one) into \<^verbatim>\<open>uploads/\<close> under the generated name and
  leaves that name in \<^verbatim>\<open>req.file.filename\<close>. The directory is taken to exist and
  to be the one served under \<^verbatim>\<open>/uploads\<close>, so the file written for the name \<open>fn\<close> is
  the file that the path \<^verbatim>\<open>/uploads/fn\<close> names.
\<close>

definition upload_single :: "nat \<Rightarrow> request \<Rightarrow> world \<Rightarrow> string option \<times> world" where
  "upload_single now req w =
     (case image_file req of
        None \<Rightarrow> (None, w)
      | Some originalname \<Rightarrow>
          (Some (filename now originalname),
           w\<lparr>files := List.insert (''/uploads/'' @ filename now originalname) (files w)\<rparr>))"

definition imageUrl :: "string option \<Rightarrow> string option" where
  "imageUrl file = (case file of Some fn \<Rightarrow> Some (''/uploads/'' @ fn) | None \<Rightarrow> None)"

subsection \<open>Variant 1: the handlers before the separator\<close>

text \<open>\<^verbatim>\<open>app.post("/products", upload.single("image"), ...)\<close>, lines 59 to 75.\<close>

definition post_products_v1 :: "nat \<Rightarrow> request \<Rightarrow> world \<Rightarrow> response \<times> world" where
  "post_products_v1 now req w0 =
     (case upload_single now req w0 of
        (file, w) \<Rightarrow>
          (case save (db w) (body req) (imageUrl file) of
             Inr (savedProduct, st) \<Rightarrow> (respond 200 (JDoc savedProduct), w\<lparr>db := st\<rparr>)
           | Inl err \<Rightarrow> (respond 500 (JError err), w)))"

text \<open>\<^verbatim>\<open>app.get("/products", ...)\<close>, lines 80 to 87.\<close>

definition get_products_v1 :: "request \<Rightarrow> world \<Rightarrow> response \<times> world" where
  "get_products_v1 req w =
     (case find_all (db w) of
        Inr products \<Rightarrow> (respond 200 (JDocs products), w)
      | Inl err \<Rightarrow> (respond 500 (JError err), w))"

text \<open>
  \<^verbatim>\<open>app.put("/products/:id", upload.single("image"), ...)\<close>, lines 92 to 132. The
  module never imports \<^verbatim>\<open>fs\<close>, so evaluating \<^verbatim>\<open>fs.unlink\<close> on line 108 throws a
  ReferenceError, which the handler's \<^verbatim>\<open>catch\<close> turns into a 500.
\<close>

definition new_image_v1 :: "request \<Rightarrow> string option \<Rightarrow> world \<Rightarrow> error + update_data" where
  "new_image_v1 req file w =
     (let updatedData = \<lparr>upd_name = body_name (body req), upd_price = body_price (body req),
                         upd_description = body_description (body req), upd_image = None\<rparr>
      in case file of
           None \<Rightarrow> Inr updatedData
         | Some fn \<Rightarrow>
             (case findById (db w) (params_id req) of
                Inl err \<Rightarrow> Inl err
              | Inr None \<Rightarrow> Inr (updatedData\<lparr>upd_image := Some (''/uploads/'' @ fn)\<rparr>)
              | Inr (Some product) \<Rightarrow>
                  if truthy (image_url product) then Inl ReferenceError
                  else Inr (updatedData\<lparr>upd_image := Some (''/uploads/'' @ fn)\<rparr>)))"

definition put_products_v1 :: "nat \<Rightarrow> request \<Rightarrow> world \<Rightarrow> response \<times> world" where
  "put_products_v1 now req w0 =
     (case upload_single now req w0 of
        (file, w) \<Rightarrow>
          (case new_image_v1 req file w of
             Inl err \<Rightarrow> (respond 500 (JError err), w)
           | Inr updatedData \<Rightarrow>
               (case findByIdAndUpdate (db w) (params_id req) updatedData of
                  Inl err \<Rightarrow> (respond 500 (JError err), w)
                | Inr (None, st) \<Rightarrow> (respond 404 (JMessage ''Product not found''), w\<lparr>db := st\<rparr>)
                | Inr (Some updatedProduct, st) \<Rightarrow>
                    (respond 200 (JDoc updatedProduct), w\<lparr>db := st\<rparr>))))"

text \<open>\<^verbatim>\<open>app.delete("/products/:id", ...)\<close>, lines 136 to 148.\<close>

definition delete_products_v1 :: "request \<Rightarrow> world \<Rightarrow> response \<times> world" where
  "delete_products_v1 req w =
     (case findByIdAndDelete (db w) (params_id req) of
        Inl err \<Rightarrow> (respond 500 (JError err), w)
      | Inr (None, st) \<Rightarrow> (respond 404 (JMessage ''Product not found''), w\<lparr>db := st\<rparr>)
      | Inr (Some deletedProduct, st) \<Rightarrow>
          (respond 200 (JMessage ''Product deleted successfully''), w\<lparr>db := st\<rparr>))"

subsection \<open>Variant 2: the handlers after the separator\<close>

text \<open>
  The \<^verbatim>\<open>catch\<close> blocks of variant 2 write to the console and answer 500 with
  \<^verbatim>\<open>{message: "Internal Server Error", error: error.message}\<close>.
\<close>

definition internal_error :: "string \<Rightarrow> error \<Rightarrow> world \<Rightarrow> response \<times> world" where
  "internal_error msg err w =
     (respond 500 (JFailure ''Internal Server Error'' err),
      w\<lparr>console := console w @ [LogError msg err]\<rparr>)"

text \<open>
  The object spread \<^verbatim>\<open>{...product._doc, image: product.image ? `${req.protocol}://${req.get('host')}${product.image}` : null}\<close>
  of lines 240 to 243 and 285 to 288.
\<close>

definition absolute :: "request \<Rightarrow> product \<Rightarrow> product" where
  "absolute req product =
     product\<lparr>image_url :=
       (case image_url product of
          None \<Rightarrow> None
        | Some s \<Rightarrow> if s = [] then None else Some (protocol req @ ''://'' @ host req @ s))\<rparr>"

text \<open>\<^verbatim>\<open>app.post("/products", upload.single("image"), ...)\<close>, lines 217 to 234.\<close>

definition post_products_v2 :: "nat \<Rightarrow> request \<Rightarrow> world \<Rightarrow> response \<times> world" where
  "post_products_v2 now req w0 =
     (case upload_single now req w0 of
        (file, w) \<Rightarrow>
          (case save (db w) (body req) (imageUrl file) of
             Inr (savedProduct, st) \<Rightarrow> (respond 200 (JDoc savedProduct), w\<lparr>db := st\<rparr>)
           | Inl err \<Rightarrow> internal_error ''Error saving product:'' err w))"

text \<open>\<^verbatim>\<open>app.get("/products", ...)\<close>, lines 237 to 249.\<close>

definition get_products_v2 :: "request \<Rightarrow> world \<Rightarrow> response \<times> world" where
  "get_products_v2 req w =
     (case find_all (db w) of
        Inr products \<Rightarrow> (respond 200 (JDocs (map (absolute req) products)), w)
      | Inl err \<Rightarrow> internal_error ''Error fetching products:'' err w)"

text \<open>
  \<^verbatim>\<open>app.put("/products/:id", upload.single("image"), ...)\<close>, lines 252 to 294. The
  block under \<^verbatim>\<open>if (req.file)\<close> is \<open>new_image_v2\<close>: it returns the update and the
  world after the attempt to remove the old image.
\<close>

definition new_image_v2 ::
  "request \<Rightarrow> string option \<Rightarrow> world \<Rightarrow> error + update_data \<times> world" where
  "new_image_v2 req file w =
     (let updatedData = \<lparr>upd_name = body_name (body req), upd_price = body_price (body req),
                         upd_description = body_description (body req), upd_image = None\<rparr>
      in case file of
           None \<Rightarrow> Inr (updatedData, w)
         | Some fn \<Rightarrow>
             (case findById (db w) (params_id req) of
                Inl err \<Rightarrow> Inl err
              | Inr None \<Rightarrow> Inr (updatedData\<lparr>upd_image := Some (''/uploads/'' @ fn)\<rparr>, w)
              | Inr (Some product) \<Rightarrow>
                  Inr (updatedData\<lparr>upd_image := Some (''/uploads/'' @ fn)\<rparr>,
                       (case image_url product of
                          None \<Rightarrow> w
                        | Some oldImagePath \<Rightarrow>
                            if oldImagePath = [] then w
                            else unlink_logged ''Error deleting old image:'' oldImagePath w))))"

definition put_products_v2 :: "nat \<Rightarrow> request \<Rightarrow> world \<Rightarrow> response \<times> world" where
  "put_products_v2 now req w0 =
     (case upload_single now req w0 of
        (file, w) \<Rightarrow>
          (case new_image_v2 req file w of
             Inl err \<Rightarrow> internal_error ''Error updating product:'' err w
           | Inr (updatedData, w1) \<Rightarrow>
               (case findByIdAndUpdate (db w1) (params_id req) updatedData of
                  Inl err \<Rightarrow> internal_error ''Error updating product:'' err w1
                | Inr (None, st) \<Rightarrow> (respond 404 (JMessage ''Product not found''), w1\<lparr>db := st\<rparr>)
                | Inr (Some updatedProduct, st) \<Rightarrow>
                    (respond 200 (JDoc (absolute req updatedProduct)), w1\<lparr>db := st\<rparr>))))"

text \<open>\<^verbatim>\<open>app.delete("/products/:id", ...)\<close>, lines 297 to 320.\<close>

definition delete_products_v2 :: "request \<Rightarrow> world \<Rightarrow> response \<times> world" where
  "delete_products_v2 req w =
     (case findById (db w) (params_id req) of
        Inl err \<Rightarrow> internal_error ''Error deleting product:'' err w
      | Inr None \<Rightarrow> (respond 404 (JMessage ''Product not found''), w)
      | Inr (Some product) \<Rightarrow>
          (let w1 = (case image_url product of
                       None \<Rightarrow> w
                     | Some imagePath \<Rightarrow>
                         if imagePath = [] then w
                         else unlink_logged ''Error deleting image:'' imagePath w)
           in case findByIdAndDelete (db w1) (params_id req) of
                Inl err \<Rightarrow> internal_error ''Error deleting product:'' err w1
              | Inr (deleted, st) \<Rightarrow>
                  (respond 200 (JMessage ''Product deleted successfully''), w1\<lparr>db := st\<rparr>)))"

subsection \<open>Auxiliary notions and example values\<close>

text \<open>Identifiers are unique and below the next identifier to be handed out.\<close>

definition wf_store :: "store \<Rightarrow> bool" where
  "wf_store st =
     (distinct (map doc_id (docs st)) \<and> list_all (\<lambda>p. doc_id p < next_id st) (docs st))"

text \<open>The last segment of a path: what follows its last slash.\<close>

definition last_segment :: "string \<Rightarrow> string" where
  "last_segment p = rev (takeWhile (\<lambda>c. c \<noteq> CHR ''/'') (rev p))"

text \<open>
  A file of the upload directory is orphaned when no record of the store has its path as
  image. \<open>upload_path\<close> is the path under which the middleware stores the file of a
  request, if the request has one.
\<close>

definition orphaned :: "string \<Rightarrow> world \<Rightarrow> bool" where
  "orphaned f w =
     (f \<in> set (files w) \<and> list_all (\<lambda>p. image_url p \<noteq> Some f) (docs (db w)))"

definition upload_path :: "nat \<Rightarrow> request \<Rightarrow> string option" where
  "upload_path now req =
     (case image_file req of
        None \<Rightarrow> None
      | Some originalname \<Rightarrow> Some (''/uploads/'' @ filename now originalname))"

text \<open>
  The routes of the application: a call is a request on one of the four routes, with
  the value of \<^verbatim>\<open>Date.now()\<close> at the upload for the two routes that go through the
  upload middleware. \<open>run_v1\<close> and \<open>run_v2\<close> serve a sequence of calls one after
  the other.
\<close>

datatype call = Post nat request | Get request | Put nat request | Delete request

fun serve_v1 :: "call \<Rightarrow> world \<Rightarrow> response \<times> world" where
  "serve_v1 (Post now req) w = post_products_v1 now req w"
| "serve_v1 (Get req) w = get_products_v1 req w"
| "serve_v1 (Put now req) w = put_products_v1 now req w"
| "serve_v1 (Delete req) w = delete_products_v1 req w"

fun serve_v2 :: "call \<Rightarrow> world \<Rightarrow> response \<times> world" where
  "serve_v2 (Post now req) w = post_products_v2 now req w"
| "serve_v2 (Get req) w = get_products_v2 req w"
| "serve_v2 (Put now req) w = put_products_v2 now req w"
| "serve_v2 (Delete req) w = delete_products_v2 req w"

fun run_v1 :: "call list \<Rightarrow> world \<Rightarrow> world" where
  "run_v1 [] w = w"
| "run_v1 (c # cs) w = run_v1 cs (snd (serve_v1 c w))"

fun run_v2 :: "call list \<Rightarrow> world \<Rightarrow> world" where
  "run_v2 [] w = w"
| "run_v2 (c # cs) w = run_v2 cs (snd (serve_v2 c w))"

fun stored_as :: "call \<Rightarrow> string option" where
  "stored_as (Post now req) = upload_path now req"
| "stored_as (Put now req) = upload_path now req"
| "stored_as (Get req) = None"
| "stored_as (Delete req) = None"

text \<open>
  A shop with two products, one with an image and one without; the same shop after
  the image file has gone missing; an empty shop; and the requests used below. The
  request \<open>ask\<close> names the pen, whose identifier is 1; \<open>id7\<close> is the string form of
  the identifier 7, which names no product of the shop, and the text \<^verbatim>\<open>7\<close> is no
  identifier at all.
\<close>

definition pen :: product where
  "pen = \<lparr>doc_id = 1, name = ''Pen'', price = 3 / 2, description = ''Blue ink'',
          image_url = Some ''/uploads/17-pen.png''\<rparr>"

definition pad :: product where
  "pad = \<lparr>doc_id = 2, name = ''Pad'', price = 4, description = ''Ruled paper'',
          image_url = None\<rparr>"

definition shop :: world where
  "shop = \<lparr>db = \<lparr>connected = True, docs = [pen, pad], next_id = 3\<rparr>,
           files = [''/uploads/17-pen.png''], undeletable = [], console = []\<rparr>"

definition stale_shop :: world where
  "stale_shop = shop\<lparr>files := []\<rparr>"

definition empty_shop :: world where
  "empty_shop = \<lparr>db = \<lparr>connected = True, docs = [], next_id = 1\<rparr>,
                 files = [], undeletable = [], console = []\<rparr>"

definition no_fields :: form where
  "no_fields = \<lparr>body_name = None, body_price = None, body_description = None\<rparr>"

definition pen_fields :: form where
  "pen_fields = \<lparr>body_name = Some ''Pen'', body_price = Some (3 / 2),
                 body_description = Some ''Blue ink''\<rparr>"

definition ask :: request where
  "ask = \<lparr>protocol = ''http'', host = ''shop.test'',
          params_id = ''000000000000000000000001'', body = no_fields, image_file = None\<rparr>"

definition id7 :: string where
  "id7 = ''000000000000000000000007''"

lemmas examples = pen_def pad_def shop_def stale_shop_def empty_shop_def no_fields_def
  pen_fields_def ask_def id7_def castObjectId_def hex_digit_def

section \<open>Properties\<close>

subsection \<open>The upload directory and the store\<close>

lemma upload_single_db: "db (snd (upload_single now req w)) = db w"
  by (simp add: upload_single_def split: option.splits)

lemma upload_single_none:
  "image_file req = None \<Longrightarrow> upload_single now req w = (None, w)"
  by (simp add: upload_single_def)

lemma upload_single_some:
  "image_file req = Some orig \<Longrightarrow>
   upload_single now req w =
     (Some (filename now orig),
      w\<lparr>files := List.insert (''/uploads/'' @ filename now orig) (files w)\<rparr>)"
  by (simp add: upload_single_def)

lemma unlink_logged_db: "db (unlink_logged msg p w) = db w"
  by (simp add: unlink_logged_def unlink_def)

text \<open>A file that may be removed is gone after the attempt; a failed attempt leaves a line.\<close>

lemma unlink_logged_removes:
  "p \<notin> set (undeletable w) \<Longrightarrow> p \<notin> set (files (unlink_logged msg p w))"
  by (simp add: unlink_logged_def unlink_def)

lemma unlink_logged_console:
  "console (unlink_logged msg p w) =
     console w @ (case fst (unlink p w) of None \<Rightarrow> [] | Some err \<Rightarrow> [LogFs msg err])"
  by (simp add: unlink_logged_def unlink_def)

lemma find_absent:
  "i \<notin> doc_id ` set ds \<Longrightarrow> find (\<lambda>p. doc_id p = i) ds = None"
  by (auto simp: find_None_iff)

lemma find_present:
  "i \<in> doc_id ` set ds \<Longrightarrow>
   \<exists>p. find (\<lambda>p. doc_id p = i) ds = Some p \<and> doc_id p = i \<and> p \<in> set ds"
  by (cases "find (\<lambda>p. doc_id p = i) ds")
     (auto simp: find_None_iff dest: find_Some_iff [THEN iffD1] intro: nth_mem)

lemma merge_fields_id: "doc_id (merge_fields u p) = doc_id p"
  by (simp add: merge_fields_def)

lemma merge_without_image:
  "merge_fields \<lparr>upd_name = a, upd_price = b, upd_description = c, upd_image = None\<rparr> q =
   q\<lparr>name := (case a of None \<Rightarrow> name q | Some n \<Rightarrow> n),
     price := (case b of None \<Rightarrow> price q | Some x \<Rightarrow> x),
     description := (case c of None \<Rightarrow> description q | Some d \<Rightarrow> d)\<rparr>"
  by (simp add: merge_fields_def)

lemma save_image:
  "save st f img = Inr (doc, st') \<Longrightarrow> image_url doc = img \<and> docs st' = docs st @ [doc]"
  by (auto simp: save_def Let_def split: option.splits if_splits)

text \<open>Every operation of the store keeps the identifiers unique.\<close>

lemma wf_save: "wf_store st \<Longrightarrow> save st f img = Inr (doc, st') \<Longrightarrow> wf_store st'"
proof -
  assume wf: "wf_store st" and s: "save st f img = Inr (doc, st')"
  from s have d: "docs st' = docs st @ [doc]" and i: "doc_id doc = next_id st"
    and n: "next_id st' = Suc (next_id st)"
    by (auto simp: save_def Let_def split: option.splits if_splits)
  from wf have "\<forall>p\<in>set (docs st). doc_id p < next_id st"
    by (simp add: wf_store_def list_all_iff)
  with wf d i n show ?thesis
    by (auto simp: wf_store_def list_all_iff less_Suc_eq)
qed

lemma wf_update:
  "wf_store st \<Longrightarrow> findByIdAndUpdate st id_text u = Inr (r, st') \<Longrightarrow> wf_store st'"
proof -
  have ids: "doc_id \<circ> (\<lambda>q. if doc_id q = i then merge_fields u q else q) = doc_id" for i
    by (simp add: fun_eq_iff merge_fields_id)
  assume "wf_store st" and "findByIdAndUpdate st id_text u = Inr (r, st')"
  then show ?thesis
    by (auto simp: wf_store_def findByIdAndUpdate_def ids list_all_iff merge_fields_id
        split: option.splits if_splits)
qed

lemma wf_delete:
  "wf_store st \<Longrightarrow> findByIdAndDelete st id_text = Inr (r, st') \<Longrightarrow> wf_store st'"
  by (auto simp: wf_store_def findByIdAndDelete_def list_all_iff distinct_map_filter
      split: option.splits if_splits)

subsection \<open>Identifiers that name no record\<close>

text \<open>
  C4, as the code has it. A PUT on \<^verbatim>\<open>/products/:id\<close> whose id is well formed (the
  string form of an identifier) and names no record of the (connected) store is
  answered 404 with the message "Product not found", in both variants, with or without
  a file in the request. A PUT whose id is malformed is answered 500: the store's cast
  error is caught by the handler. In both cases the store after the request is the
  store before it, so no record has been created or changed.
\<close>

theorem put_unknown_id_not_found:
  "(connected (db w) \<and> castObjectId (params_id req) = Some i
      \<and> i \<notin> doc_id ` set (docs (db w)) \<longrightarrow>
        fst (put_products_v1 now req w) = respond 404 (JMessage ''Product not found'')
      \<and> db (snd (put_products_v1 now req w)) = db w
      \<and> fst (put_products_v2 now req w) = respond 404 (JMessage ''Product not found'')
      \<and> db (snd (put_products_v2 now req w)) = db w)
   \<and> (castObjectId (params_id req) = None \<longrightarrow>
        fst (put_products_v1 now req w) = respond 500 (JError CastError)
      \<and> db (snd (put_products_v1 now req w)) = db w
      \<and> fst (put_products_v2 now req w) =
          respond 500 (JFailure ''Internal Server Error'' CastError)
      \<and> db (snd (put_products_v2 now req w)) = db w)"
proof (rule conjI; rule impI)
  assume a: "connected (db w) \<and> castObjectId (params_id req) = Some i
      \<and> i \<notin> doc_id ` set (docs (db w))"
  then have nf: "find (\<lambda>p. doc_id p = i) (docs (db w)) = None"
    by (simp add: find_absent)
  show "fst (put_products_v1 now req w) = respond 404 (JMessage ''Product not found'')
      \<and> db (snd (put_products_v1 now req w)) = db w
      \<and> fst (put_products_v2 now req w) = respond 404 (JMessage ''Product not found'')
      \<and> db (snd (put_products_v2 now req w)) = db w"
  proof (cases "image_file req")
    case None
    with a nf show ?thesis
      by (simp add: put_products_v1_def put_products_v2_def upload_single_none
          new_image_v1_def new_image_v2_def findByIdAndUpdate_def)
  next
    case (Some orig)
    with a nf show ?thesis
      by (simp add: put_products_v1_def put_products_v2_def upload_single_some
          new_image_v1_def new_image_v2_def findById_def findByIdAndUpdate_def)
  qed
next
  assume m: "castObjectId (params_id req) = None"
  show "fst (put_products_v1 now req w) = respond 500 (JError CastError)
      \<and> db (snd (put_products_v1 now req w)) = db w
      \<and> fst (put_products_v2 now req w) =
          respond 500 (JFailure ''Internal Server Error'' CastError)
      \<and> db (snd (put_products_v2 now req w)) = db w"
  proof (cases "image_file req")
    case None
    with m show ?thesis
      by (simp add: put_products_v1_def put_products_v2_def upload_single_none
          new_image_v1_def new_image_v2_def findByIdAndUpdate_def internal_error_def)
  next
    case (Some orig)
    with m show ?thesis
      by (simp add: put_products_v1_def put_products_v2_def upload_single_some
          new_image_v1_def new_image_v2_def findById_def internal_error_def)
  qed
qed

text \<open>
  C4 as amended, at two concrete requests on the shop, whose identifiers are 1 and 2:
  a PUT for the well-formed id of the identifier 7 is answered 404, and a PUT for the
  text \<^verbatim>\<open>7\<close> is answered 500; the store is unchanged both times.
\<close>

theorem put_unknown_id_not_found_witness:
  "connected (db shop) \<and> castObjectId (params_id (ask\<lparr>params_id := id7\<rparr>)) = Some 7
   \<and> 7 \<notin> doc_id ` set (docs (db shop))
   \<and> fst (put_products_v1 42 (ask\<lparr>params_id := id7\<rparr>) shop) =
        respond 404 (JMessage ''Product not found'')
   \<and> db (snd (put_products_v1 42 (ask\<lparr>params_id := id7\<rparr>) shop)) = db shop
   \<and> fst (put_products_v2 42 (ask\<lparr>params_id := id7\<rparr>) shop) =
        respond 404 (JMessage ''Product not found'')
   \<and> db (snd (put_products_v2 42 (ask\<lparr>params_id := id7\<rparr>) shop)) = db shop
   \<and> castObjectId (params_id (ask\<lparr>params_id := ''7''\<rparr>)) = None
   \<and> fst (put_products_v1 42 (ask\<lparr>params_id := ''7''\<rparr>) shop) = respond 500 (JError CastError)
   \<and> db (snd (put_products_v1 42 (ask\<lparr>params_id := ''7''\<rparr>) shop)) = db shop
   \<and> fst (put_products_v2 42 (ask\<lparr>params_id := ''7''\<rparr>) shop) =
        respond 500 (JFailure ''Internal Server Error'' CastError)
   \<and> db (snd (put_products_v2 42 (ask\<lparr>params_id := ''7''\<rparr>) shop)) = db shop"
proof -
  have c: "connected (db shop)" by (simp add: examples)
  have i: "castObjectId (params_id (ask\<lparr>params_id := id7\<rparr>)) = Some 7"
    by (simp add: examples)
  have a: "7 \<notin> doc_id ` set (docs (db shop))" by (simp add: examples)
  have m: "castObjectId (params_id (ask\<lparr>params_id := ''7''\<rparr>)) = None"
    by (simp add: castObjectId_def)
  from c i a m
    put_unknown_id_not_found [of shop "ask\<lparr>params_id := id7\<rparr>" 7 42]
    put_unknown_id_not_found [of shop "ask\<lparr>params_id := ''7''\<rparr>" 7 42]
  show ?thesis by simp
qed

text \<open>
  C4 as stated fails: no record of the shop has the id \<^verbatim>\<open>7\<close>, which is not even the
  string form of an identifier, and the PUT for it is answered 500 by both variants,
  not 404.
\<close>

theorem put_malformed_id_counterexample:
  "connected (db shop)
   \<and> castObjectId (params_id (ask\<lparr>params_id := ''7''\<rparr>)) = None
   \<and> status (fst (put_products_v1 42 (ask\<lparr>params_id := ''7''\<rparr>) shop)) = 500
   \<and> status (fst (put_products_v2 42 (ask\<lparr>params_id := ''7''\<rparr>) shop)) = 500
   \<and> fst (put_products_v1 42 (ask\<lparr>params_id := ''7''\<rparr>) shop) \<noteq>
        respond 404 (JMessage ''Product not found'')
   \<and> fst (put_products_v2 42 (ask\<lparr>params_id := ''7''\<rparr>) shop) \<noteq>
        respond 404 (JMessage ''Product not found'')"
  by (simp add: put_products_v1_def put_products_v2_def upload_single_def new_image_v1_def
      new_image_v2_def findByIdAndUpdate_def internal_error_def respond_def castObjectId_def
      shop_def ask_def)

text \<open>
  C5, as the code has it. A DELETE on \<^verbatim>\<open>/products/:id\<close> whose id is well formed and
  names no record of the (connected) store is answered 404 with the body
  \<^verbatim>\<open>{message: "Product not found"}\<close>, in both variants, and leaves the whole world as
  it was. A DELETE whose id is malformed is answered 500 (variant 2 also writes the
  error to the console). No record is removed in either case.
\<close>

theorem delete_unknown_id_not_found:
  "(connected (db w) \<and> castObjectId (params_id req) = Some i
      \<and> i \<notin> doc_id ` set (docs (db w)) \<longrightarrow>
        delete_products_v1 req w = (respond 404 (JMessage ''Product not found''), w)
      \<and> delete_products_v2 req w = (respond 404 (JMessage ''Product not found''), w))
   \<and> (castObjectId (params_id req) = None \<longrightarrow>
        delete_products_v1 req w = (respond 500 (JError CastError), w)
      \<and> delete_products_v2 req w =
          (respond 500 (JFailure ''Internal Server Error'' CastError),
           w\<lparr>console := console w @ [LogError ''Error deleting product:'' CastError]\<rparr>))"
proof (intro conjI impI)
  assume a: "connected (db w) \<and> castObjectId (params_id req) = Some i
      \<and> i \<notin> doc_id ` set (docs (db w))"
  then have nf: "find (\<lambda>p. doc_id p = i) (docs (db w)) = None"
    by (simp add: find_absent)
  with a show "delete_products_v1 req w = (respond 404 (JMessage ''Product not found''), w)"
    by (simp add: delete_products_v1_def findByIdAndDelete_def)
  from a nf show "delete_products_v2 req w = (respond 404 (JMessage ''Product not found''), w)"
    by (simp add: delete_products_v2_def findById_def)
next
  assume m: "castObjectId (params_id req) = None"
  then show "delete_products_v1 req w = (respond 500 (JError CastError), w)"
    by (simp add: delete_products_v1_def findByIdAndDelete_def)
  from m show "delete_products_v2 req w =
          (respond 500 (JFailure ''Internal Server Error'' CastError),
           w\<lparr>console := console w @ [LogError ''Error deleting product:'' CastError]\<rparr>)"
    by (simp add: delete_products_v2_def findById_def internal_error_def)
qed

text \<open>
  C5 as amended, at two concrete requests on the shop: a DELETE for the well-formed id
  of the identifier 7 is answered 404 and a DELETE for the text \<^verbatim>\<open>7\<close> is answered 500;
  the records are the same afterwards.
\<close>

theorem delete_unknown_id_not_found_witness:
  "connected (db shop) \<and> castObjectId (params_id (ask\<lparr>params_id := id7\<rparr>)) = Some 7
   \<and> 7 \<notin> doc_id ` set (docs (db shop))
   \<and> delete_products_v1 (ask\<lparr>params_id := id7\<rparr>) shop =
        (respond 404 (JMessage ''Product not found''), shop)
   \<and> delete_products_v2 (ask\<lparr>params_id := id7\<rparr>) shop =
        (respond 404 (JMessage ''Product not found''), shop)
   \<and> castObjectId (params_id (ask\<lparr>params_id := ''7''\<rparr>)) = None
   \<and> delete_products_v1 (ask\<lparr>params_id := ''7''\<rparr>) shop = (respond 500 (JError CastError), shop)
   \<and> delete_products_v2 (ask\<lparr>params_id := ''7''\<rparr>) shop =
        (respond 500 (JFailure ''Internal Server Error'' CastError),
         shop\<lparr>console := [LogError ''Error deleting product:'' CastError]\<rparr>)"
proof -
  have c: "connected (db shop)" by (simp add: examples)
  have i: "castObjectId (params_id (ask\<lparr>params_id := id7\<rparr>)) = Some 7"
    by (simp add: examples)
  have a: "7 \<notin> doc_id ` set (docs (db shop))" by (simp add: examples)
  have m: "castObjectId (params_id (ask\<lparr>params_id := ''7''\<rparr>)) = None"
    by (simp add: castObjectId_def)
  have e: "console shop = []" by (simp add: shop_def)
  from c i a m e
    delete_unknown_id_not_found [of shop "ask\<lparr>params_id := id7\<rparr>" 7]
    delete_unknown_id_not_found [of shop "ask\<lparr>params_id := ''7''\<rparr>" 7]
  show ?thesis by simp
qed

text \<open>
  C5 as stated fails: no record of the shop has the id \<^verbatim>\<open>7\<close>, and the DELETE for it is
  answered 500 by both variants, not 404 with "Product not found".
\<close>

theorem delete_malformed_id_counterexample:
  "connected (db shop)
   \<and> castObjectId (params_id (ask\<lparr>params_id := ''7''\<rparr>)) = None
   \<and> fst (delete_products_v1 (ask\<lparr>params_id := ''7''\<rparr>) shop) = respond 500 (JError CastError)
   \<and> fst (delete_products_v2 (ask\<lparr>params_id := ''7''\<rparr>) shop) =
        respond 500 (JFailure ''Internal Server Error'' CastError)
   \<and> fst (delete_products_v1 (ask\<lparr>params_id := ''7''\<rparr>) shop) \<noteq>
        respond 404 (JMessage ''Product not found'')
   \<and> fst (delete_products_v2 (ask\<lparr>params_id := ''7''\<rparr>) shop) \<noteq>
        respond 404 (JMessage ''Product not found'')"
  by (simp add: delete_products_v1_def delete_products_v2_def findById_def
      findByIdAndDelete_def internal_error_def respond_def castObjectId_def shop_def ask_def)

subsection \<open>Creating a product\<close>

text \<open>
  C6. A POST on \<^verbatim>\<open>/products\<close> that carries a non-empty name, a price and a
  non-empty description and no file is answered 200 by both variants (on a connected
  store); the body is the created record, whose image is \<^verbatim>\<open>null\<close>, and that record is
  the one appended to the store.
\<close>

theorem post_without_file_null_image:
  assumes "connected (db w)" and "image_file req = None"
    and "body_name (body req) = Some n" and "n \<noteq> []"
    and "body_price (body req) = Some x"
    and "body_description (body req) = Some d" and "d \<noteq> []"
  shows "post_products_v1 now req w =
           (respond 200 (JDoc \<lparr>doc_id = next_id (db w), name = n, price = x, description = d,
                                image_url = None\<rparr>),
            w\<lparr>db := (db w)\<lparr>docs := docs (db w) @
                          [\<lparr>doc_id = next_id (db w), name = n, price = x, description = d,
                            image_url = None\<rparr>],
                        next_id := Suc (next_id (db w))\<rparr>\<rparr>)
       \<and> post_products_v2 now req w = post_products_v1 now req w"
  using assms
  by (simp add: post_products_v1_def post_products_v2_def upload_single_none save_def
      imageUrl_def Let_def)

text \<open>
  C6, at the scenario of the specification: name "Pen", price 1.5, description
  "Blue ink", no file, sent to the empty shop.
\<close>

theorem post_without_file_null_image_witness:
  "post_products_v1 42 (ask\<lparr>body := pen_fields\<rparr>) empty_shop =
     (respond 200 (JDoc \<lparr>doc_id = 1, name = ''Pen'', price = 3 / 2, description = ''Blue ink'',
                          image_url = None\<rparr>),
      empty_shop\<lparr>db := \<lparr>connected = True,
                         docs = [\<lparr>doc_id = 1, name = ''Pen'', price = 3 / 2,
                                  description = ''Blue ink'', image_url = None\<rparr>],
                         next_id = 2\<rparr>\<rparr>)
   \<and> post_products_v2 42 (ask\<lparr>body := pen_fields\<rparr>) empty_shop =
       post_products_v1 42 (ask\<lparr>body := pen_fields\<rparr>) empty_shop"
  using post_without_file_null_image [of empty_shop "ask\<lparr>body := pen_fields\<rparr>" "''Pen''"
      "3 / 2" "''Blue ink''" 42]
  by (simp add: examples)

text \<open>
  C7. When a POST on \<^verbatim>\<open>/products\<close> carries a file and a record is created (the
  answer is 200), the image of the created record is the upload prefix
  \<^verbatim>\<open>/uploads/\<close> followed by the generated file name, which is the decimal timestamp, a
  hyphen and the original file name; the record is the one appended to the store and a
  file of that path is in the upload directory. Both variants. (That the generated
  name is the last segment of the path is \<open>generated_name_last_segment\<close> below.)
\<close>

theorem post_with_file_image_path:
  assumes "image_file req = Some originalname"
  shows "(status (fst (post_products_v1 now req w)) = 200 \<longrightarrow>
            (\<exists>doc. json (fst (post_products_v1 now req w)) = JDoc doc
              \<and> image_url doc = Some (''/uploads/'' @ dec now @ ''-'' @ originalname)
              \<and> docs (db (snd (post_products_v1 now req w))) = docs (db w) @ [doc]
              \<and> ''/uploads/'' @ dec now @ ''-'' @ originalname
                   \<in> set (files (snd (post_products_v1 now req w)))))
       \<and> (status (fst (post_products_v2 now req w)) = 200 \<longrightarrow>
            (\<exists>doc. json (fst (post_products_v2 now req w)) = JDoc doc
              \<and> image_url doc = Some (''/uploads/'' @ dec now @ ''-'' @ originalname)
              \<and> docs (db (snd (post_products_v2 now req w))) = docs (db w) @ [doc]
              \<and> ''/uploads/'' @ dec now @ ''-'' @ originalname
                   \<in> set (files (snd (post_products_v2 now req w)))))"
proof -
  let ?img = "Some (''/uploads/'' @ filename now originalname)"
  show ?thesis
  proof (cases "save (db w) (body req) ?img")
    case (Inl err)
    with assms show ?thesis
      by (simp add: post_products_v1_def post_products_v2_def upload_single_some
          imageUrl_def respond_def internal_error_def)
  next
    case (Inr r)
    obtain doc st where r: "r = (doc, st)" by (cases r)
    from Inr r have "image_url doc = ?img" and "docs st = docs (db w) @ [doc]"
      using save_image [of "db w" "body req" ?img doc st] by simp_all
    with assms Inr r show ?thesis
      by (simp add: post_products_v1_def post_products_v2_def upload_single_some
          imageUrl_def respond_def filename_def)
  qed
qed

text \<open>
  The generated name holds no slash unless the original name does, so it is the last
  segment of the stored path.
\<close>

lemma digit_no_slash: "d < 10 \<Longrightarrow> digit d \<noteq> CHR ''/''"
proof -
  assume "d < 10"
  then have "d \<in> {0, 1, 2, 3, 4, 5, 6, 7, 8, 9}" by auto
  then show ?thesis by (auto simp: digit_def)
qed

lemma dec_no_slash: "CHR ''/'' \<notin> set (dec n)"
proof (induction n rule: dec.induct)
  case (1 n)
  show ?case
  proof (cases "n < 10")
    case True
    then show ?thesis using digit_no_slash [of n] by (simp add: dec.simps)
  next
    case False
    have "n mod 10 < 10" by simp
    then have "digit (n mod 10) \<noteq> CHR ''/''" by (rule digit_no_slash)
    with False 1 show ?thesis by (simp add: dec.simps [of n])
  qed
qed

lemma last_segment_after_slash:
  "CHR ''/'' \<notin> set s \<Longrightarrow> last_segment (pre @ ''/'' @ s) = s"
proof -
  assume "CHR ''/'' \<notin> set s"
  then have "takeWhile (\<lambda>c. c \<noteq> CHR ''/'') (rev s @ CHR ''/'' # rev pre) = rev s"
    by (induction s rule: rev_induct) auto
  then show ?thesis by (simp add: last_segment_def)
qed

lemma generated_name_last_segment:
  assumes "CHR ''/'' \<notin> set originalname"
  shows "last_segment (''/uploads/'' @ filename now originalname) = filename now originalname"
proof -
  from assms dec_no_slash [of now] have "CHR ''/'' \<notin> set (filename now originalname)"
    by (simp add: filename_def)
  then have "last_segment (''/uploads'' @ ''/'' @ filename now originalname)
      = filename now originalname" by (rule last_segment_after_slash)
  then show ?thesis by simp
qed

text \<open>
  C7, at a concrete request: the pen is created with the file \<^verbatim>\<open>pen.png\<close> at time 17;
  both variants answer 200 and the image of the record is \<^verbatim>\<open>/uploads/17-pen.png\<close>.
\<close>

theorem post_with_file_image_path_witness:
  "image_file (ask\<lparr>body := pen_fields, image_file := Some ''pen.png''\<rparr>) = Some ''pen.png''
   \<and> status (fst (post_products_v1 17
         (ask\<lparr>body := pen_fields, image_file := Some ''pen.png''\<rparr>) empty_shop)) = 200
   \<and> status (fst (post_products_v2 17
         (ask\<lparr>body := pen_fields, image_file := Some ''pen.png''\<rparr>) empty_shop)) = 200
   \<and> (\<exists>doc. json (fst (post_products_v1 17
                (ask\<lparr>body := pen_fields, image_file := Some ''pen.png''\<rparr>) empty_shop)) = JDoc doc
          \<and> image_url doc = Some ''/uploads/17-pen.png'')
   \<and> (\<exists>doc. json (fst (post_products_v2 17
                (ask\<lparr>body := pen_fields, image_file := Some ''pen.png''\<rparr>) empty_shop)) = JDoc doc
          \<and> image_url doc = Some ''/uploads/17-pen.png'')"
proof -
  let ?req = "ask\<lparr>body := pen_fields, image_file := Some ''pen.png''\<rparr>"
  have f: "image_file ?req = Some ''pen.png''" by simp
  have s1: "status (fst (post_products_v1 17 ?req empty_shop)) = 200"
    by (simp add: post_products_v1_def upload_single_def save_def imageUrl_def respond_def
        Let_def examples)
  have s2: "status (fst (post_products_v2 17 ?req empty_shop)) = 200"
    by (simp add: post_products_v2_def upload_single_def save_def imageUrl_def respond_def
        Let_def examples)
  have d: "dec 17 = ''17''" by (simp add: dec.simps digit_def)
  from post_with_file_image_path [OF f, of 17 empty_shop] s1 s2 d f show ?thesis by auto
qed

subsection \<open>Updating a product\<close>

text \<open>
  C8. A PUT on \<^verbatim>\<open>/products/:id\<close> without a file, for the id of a record of the
  (connected) store (the id text is the string form of an identifier \<open>i\<close> that a
  record has), is answered 200 by both variants, which leave the same world. In
  the store, the record of that id has its name, price and description replaced by
  those the request provides and kept where the request provides none; no other field
  and no other record changes, and every image is the one stored before.
\<close>

theorem put_without_file_keeps_image:
  assumes "connected (db w)" and "castObjectId (params_id req) = Some i"
    and "i \<in> doc_id ` set (docs (db w))" and "image_file req = None"
  shows "status (fst (put_products_v1 now req w)) = 200
       \<and> status (fst (put_products_v2 now req w)) = 200
       \<and> snd (put_products_v1 now req w) = snd (put_products_v2 now req w)
       \<and> docs (db (snd (put_products_v2 now req w))) =
           map (\<lambda>q. if doc_id q = i
                    then q\<lparr>name := (case body_name (body req) of None \<Rightarrow> name q | Some n \<Rightarrow> n),
                           price := (case body_price (body req) of None \<Rightarrow> price q | Some x \<Rightarrow> x),
                           description := (case body_description (body req) of
                                             None \<Rightarrow> description q | Some d \<Rightarrow> d)\<rparr>
                    else q) (docs (db w))
       \<and> map image_url (docs (db (snd (put_products_v2 now req w)))) = map image_url (docs (db w))"
proof -
  from assms(3) obtain p where p: "find (\<lambda>p. doc_id p = i) (docs (db w)) = Some p"
    using find_present by blast
  have img: "map image_url (map (\<lambda>q. if doc_id q = j
                 then q\<lparr>name := f q, price := g q, description := h q\<rparr> else q) ds)
        = map image_url ds" for j f g h and ds :: "product list"
    by (induction ds) simp_all
  from assms(1,2,4) p show ?thesis
    by (simp add: put_products_v1_def put_products_v2_def upload_single_none
        new_image_v1_def new_image_v2_def findByIdAndUpdate_def merge_without_image
        respond_def img)
qed

text \<open>
  C8, at a concrete request: the pen of the shop is renamed, with no price, no
  description and no file in the request; only its name changes.
\<close>

theorem put_without_file_keeps_image_witness:
  "connected (db shop)
   \<and> castObjectId (params_id (ask\<lparr>body := no_fields\<lparr>body_name := Some ''Pencil''\<rparr>\<rparr>)) = Some 1
   \<and> 1 \<in> doc_id ` set (docs (db shop))
   \<and> image_file (ask\<lparr>body := no_fields\<lparr>body_name := Some ''Pencil''\<rparr>\<rparr>) = None
   \<and> status (fst (put_products_v2 42
         (ask\<lparr>body := no_fields\<lparr>body_name := Some ''Pencil''\<rparr>\<rparr>) shop)) = 200
   \<and> docs (db (snd (put_products_v2 42
         (ask\<lparr>body := no_fields\<lparr>body_name := Some ''Pencil''\<rparr>\<rparr>) shop)))
        = [pen\<lparr>name := ''Pencil''\<rparr>, pad]
   \<and> docs (db (snd (put_products_v1 42
         (ask\<lparr>body := no_fields\<lparr>body_name := Some ''Pencil''\<rparr>\<rparr>) shop)))
        = [pen\<lparr>name := ''Pencil''\<rparr>, pad]"
proof -
  let ?req = "ask\<lparr>body := no_fields\<lparr>body_name := Some ''Pencil''\<rparr>\<rparr>"
  have c: "connected (db shop)" by (simp add: examples)
  have i: "castObjectId (params_id ?req) = Some 1" by (simp add: examples)
  have a: "1 \<in> doc_id ` set (docs (db shop))" by (simp add: examples)
  have f: "image_file ?req = None" by (simp add: examples)
  from c i a f put_without_file_keeps_image [OF c i a f, of 42] show ?thesis
    by (simp add: examples)
qed

text \<open>
  C10, as the code has it. A PUT on \<^verbatim>\<open>/products/:id\<close> that carries a file, for an id
  that names no record: when the id is well formed (and the store connected) both
  variants answer 404, when it is malformed both answer 500. In either case the world
  after the request is the world before it with the uploaded file added to the upload
  directory (and, in variant 2, the error written to the console): the handler removes
  nothing and changes no record, so the file stays, with no record that the request
  made for it. That later requests do not remove it either is
  \<open>put_unknown_id_orphan_forever\<close> below.
\<close>

theorem put_unknown_id_orphans_upload:
  assumes "image_file req = Some originalname"
  shows "(connected (db w) \<and> castObjectId (params_id req) = Some i
            \<and> i \<notin> doc_id ` set (docs (db w)) \<longrightarrow>
              put_products_v1 now req w =
                (respond 404 (JMessage ''Product not found''),
                 w\<lparr>files := List.insert (''/uploads/'' @ dec now @ ''-'' @ originalname)
                              (files w)\<rparr>)
            \<and> put_products_v2 now req w = put_products_v1 now req w
            \<and> ''/uploads/'' @ dec now @ ''-'' @ originalname
                 \<in> set (files (snd (put_products_v1 now req w))))
       \<and> (castObjectId (params_id req) = None \<longrightarrow>
              put_products_v1 now req w =
                (respond 500 (JError CastError),
                 w\<lparr>files := List.insert (''/uploads/'' @ dec now @ ''-'' @ originalname)
                              (files w)\<rparr>)
            \<and> put_products_v2 now req w =
                (respond 500 (JFailure ''Internal Server Error'' CastError),
                 w\<lparr>files := List.insert (''/uploads/'' @ dec now @ ''-'' @ originalname)
                              (files w),
                   console := console w @ [LogError ''Error updating product:'' CastError]\<rparr>))"
proof (intro conjI impI)
  assume a: "connected (db w) \<and> castObjectId (params_id req) = Some i
      \<and> i \<notin> doc_id ` set (docs (db w))"
  then have nf: "find (\<lambda>p. doc_id p = i) (docs (db w)) = None"
    by (simp add: find_absent)
  from a nf assms show v1: "put_products_v1 now req w =
      (respond 404 (JMessage ''Product not found''),
       w\<lparr>files := List.insert (''/uploads/'' @ dec now @ ''-'' @ originalname) (files w)\<rparr>)"
    by (simp add: put_products_v1_def upload_single_some new_image_v1_def findById_def
        findByIdAndUpdate_def filename_def)
  from a nf assms show "put_products_v2 now req w = put_products_v1 now req w"
    by (simp add: put_products_v1_def put_products_v2_def upload_single_some
        new_image_v1_def new_image_v2_def findById_def findByIdAndUpdate_def)
  show "''/uploads/'' @ dec now @ ''-'' @ originalname
      \<in> set (files (snd (put_products_v1 now req w)))"
    by (simp add: v1)
next
  assume m: "castObjectId (params_id req) = None"
  with assms show "put_products_v1 now req w =
      (respond 500 (JError CastError),
       w\<lparr>files := List.insert (''/uploads/'' @ dec now @ ''-'' @ originalname) (files w)\<rparr>)"
    by (simp add: put_products_v1_def upload_single_some new_image_v1_def findById_def
        filename_def)
  from m assms show "put_products_v2 now req w =
      (respond 500 (JFailure ''Internal Server Error'' CastError),
       w\<lparr>files := List.insert (''/uploads/'' @ dec now @ ''-'' @ originalname) (files w),
         console := console w @ [LogError ''Error updating product:'' CastError]\<rparr>)"
    by (simp add: put_products_v2_def upload_single_some new_image_v2_def findById_def
        filename_def internal_error_def)
qed

text \<open>
  C10 as amended, at two concrete requests on the shop, both with the file
  \<^verbatim>\<open>new.png\<close> at time 42: the PUT for the well-formed id of the identifier 7 is answered
  404 and the PUT for the text \<^verbatim>\<open>7\<close> is answered 500; both leave
  \<^verbatim>\<open>/uploads/42-new.png\<close> in the upload directory.
\<close>

theorem put_unknown_id_orphans_upload_witness:
  "connected (db shop)
   \<and> castObjectId (params_id (ask\<lparr>params_id := id7, image_file := Some ''new.png''\<rparr>)) = Some 7
   \<and> 7 \<notin> doc_id ` set (docs (db shop))
   \<and> put_products_v2 42 (ask\<lparr>params_id := id7, image_file := Some ''new.png''\<rparr>) shop =
       (respond 404 (JMessage ''Product not found''),
        shop\<lparr>files := [''/uploads/42-new.png'', ''/uploads/17-pen.png'']\<rparr>)
   \<and> put_products_v1 42 (ask\<lparr>params_id := id7, image_file := Some ''new.png''\<rparr>) shop =
       (respond 404 (JMessage ''Product not found''),
        shop\<lparr>files := [''/uploads/42-new.png'', ''/uploads/17-pen.png'']\<rparr>)
   \<and> castObjectId (params_id (ask\<lparr>params_id := ''7'', image_file := Some ''new.png''\<rparr>)) = None
   \<and> put_products_v1 42 (ask\<lparr>params_id := ''7'', image_file := Some ''new.png''\<rparr>) shop =
       (respond 500 (JError CastError),
        shop\<lparr>files := [''/uploads/42-new.png'', ''/uploads/17-pen.png'']\<rparr>)
   \<and> put_products_v2 42 (ask\<lparr>params_id := ''7'', image_file := Some ''new.png''\<rparr>) shop =
       (respond 500 (JFailure ''Internal Server Error'' CastError),
        shop\<lparr>files := [''/uploads/42-new.png'', ''/uploads/17-pen.png''],
             console := [LogError ''Error updating product:'' CastError]\<rparr>)"
proof -
  let ?req = "ask\<lparr>params_id := id7, image_file := Some ''new.png''\<rparr>"
  let ?bad = "ask\<lparr>params_id := ''7'', image_file := Some ''new.png''\<rparr>"
  have c: "connected (db shop)" by (simp add: examples)
  have i: "castObjectId (params_id ?req) = Some 7" by (simp add: examples)
  have a: "7 \<notin> doc_id ` set (docs (db shop))" by (simp add: examples)
  have m: "castObjectId (params_id ?bad) = None" by (simp add: castObjectId_def)
  have f: "image_file ?req = Some ''new.png''" by simp
  have g: "image_file ?bad = Some ''new.png''" by simp
  have d: "dec 42 = ''42''" by (simp add: dec.simps digit_def)
  have s: "files shop = [''/uploads/17-pen.png'']" "console shop = []"
    by (simp_all add: shop_def)
  from c i a m d s
    put_unknown_id_orphans_upload [OF f, of shop 7 42]
    put_unknown_id_orphans_upload [OF g, of shop 7 42]
  show ?thesis by simp
qed

text \<open>
  C10 as stated fails: the PUT with a file for the text \<^verbatim>\<open>7\<close>, which names no record
  of the shop, is answered 500 by both variants, not 404; the uploaded file is left in
  the upload directory all the same.
\<close>

theorem put_malformed_id_upload_counterexample:
  "connected (db shop)
   \<and> castObjectId (params_id (ask\<lparr>params_id := ''7'', image_file := Some ''new.png''\<rparr>)) = None
   \<and> status (fst (put_products_v1 42
         (ask\<lparr>params_id := ''7'', image_file := Some ''new.png''\<rparr>) shop)) = 500
   \<and> status (fst (put_products_v2 42
         (ask\<lparr>params_id := ''7'', image_file := Some ''new.png''\<rparr>) shop)) = 500
   \<and> files (snd (put_products_v1 42
         (ask\<lparr>params_id := ''7'', image_file := Some ''new.png''\<rparr>) shop)) =
        [''/uploads/42-new.png'', ''/uploads/17-pen.png'']
   \<and> files (snd (put_products_v2 42
         (ask\<lparr>params_id := ''7'', image_file := Some ''new.png''\<rparr>) shop)) =
        [''/uploads/42-new.png'', ''/uploads/17-pen.png'']"
  by (simp add: put_products_v1_def put_products_v2_def upload_single_def new_image_v1_def
      new_image_v2_def findById_def internal_error_def respond_def castObjectId_def
      filename_def dec.simps digit_def shop_def ask_def)

subsection \<open>Listing the products\<close>

lemma absolute_spec:
  "absolute req p =
     p\<lparr>image_url := (if truthy (image_url p)
                      then Some (protocol req @ ''://'' @ host req @ the (image_url p))
                      else None)\<rparr>"
  by (cases "image_url p") (simp_all add: absolute_def)

lemma absolute_fixed: "absolute req p = p \<longleftrightarrow> image_url p = None"
proof
  assume "absolute req p = p"
  then have "image_url (absolute req p) = image_url p" by simp
  then show "image_url p = None"
    by (cases "image_url p") (simp_all add: absolute_def split: if_splits)
next
  assume "image_url p = None"
  then show "absolute req p = p" by (simp add: absolute_def)
qed

lemma map_absolute_fixed:
  "map (absolute req) ds = ds \<longleftrightarrow> list_all (\<lambda>p. image_url p = None) ds"
  by (induction ds) (simp_all add: absolute_fixed)

lemma get_products_v1_ok:
  "get_products_v1 req w = (res, w') \<Longrightarrow> status res = 200 \<Longrightarrow>
   w' = w \<and> json res = JDocs (docs (db w))"
  by (cases "connected (db w)")
     (auto simp: get_products_v1_def find_all_def respond_def)

lemma get_products_v2_ok:
  "get_products_v2 req w = (res, w') \<Longrightarrow> status res = 200 \<Longrightarrow>
   w' = w \<and> json res = JDocs (map (absolute req) (docs (db w)))"
  by (cases "connected (db w)")
     (auto simp: get_products_v2_def find_all_def respond_def internal_error_def)

text \<open>
  C1, as the code has it. A GET on \<^verbatim>\<open>/products\<close> that variant 2 answers with 200
  returns the stored records in their order, each with its image replaced by the
  absolute URL (scheme, \<^verbatim>\<open>://\<close>, host, stored relative path) when the stored image is
  a non-empty path and by \<^verbatim>\<open>null\<close> otherwise; one that variant 1 answers with 200
  returns the stored records as they are, the image being the stored relative path or
  \<^verbatim>\<open>null\<close>. Neither changes the world, so the stored value stays the relative path.
\<close>

theorem get_products_image_urls:
  "(status (fst (get_products_v2 req w)) = 200 \<longrightarrow>
      snd (get_products_v2 req w) = w \<and>
      json (fst (get_products_v2 req w)) =
        JDocs (map (\<lambda>p. p\<lparr>image_url :=
                   (if truthy (image_url p)
                    then Some (protocol req @ ''://'' @ host req @ the (image_url p))
                    else None)\<rparr>) (docs (db w))))
   \<and> (status (fst (get_products_v1 req w)) = 200 \<longrightarrow>
      snd (get_products_v1 req w) = w \<and>
      json (fst (get_products_v1 req w)) = JDocs (docs (db w)))"
proof -
  have "map (absolute req) (docs (db w)) = map (\<lambda>p. p\<lparr>image_url :=
                   (if truthy (image_url p)
                    then Some (protocol req @ ''://'' @ host req @ the (image_url p))
                    else None)\<rparr>) (docs (db w))"
    by (rule map_cong [OF refl]) (rule absolute_spec)
  then show ?thesis
    using get_products_v2_ok [of req w "fst (get_products_v2 req w)" "snd (get_products_v2 req w)"]
      get_products_v1_ok [of req w "fst (get_products_v1 req w)" "snd (get_products_v1 req w)"]
    by simp
qed

text \<open>
  C1 as amended, at the shop: variant 2 lists the pen with
  \<^verbatim>\<open>http://shop.test/uploads/17-pen.png\<close> and the pad with \<^verbatim>\<open>null\<close>; variant 1 lists
  both as stored.
\<close>

theorem get_products_image_urls_witness:
  "status (fst (get_products_v2 ask shop)) = 200
   \<and> snd (get_products_v2 ask shop) = shop
   \<and> json (fst (get_products_v2 ask shop)) =
       JDocs [pen\<lparr>image_url := Some ''http://shop.test/uploads/17-pen.png''\<rparr>, pad]
   \<and> status (fst (get_products_v1 ask shop)) = 200
   \<and> json (fst (get_products_v1 ask shop)) = JDocs [pen, pad]"
proof -
  have h2: "status (fst (get_products_v2 ask shop)) = 200"
    by (simp add: get_products_v2_def find_all_def respond_def shop_def)
  have h1: "status (fst (get_products_v1 ask shop)) = 200"
    by (simp add: get_products_v1_def find_all_def respond_def shop_def)
  from h1 h2 get_products_image_urls [of ask shop] show ?thesis
    by (simp add: examples)
qed

text \<open>
  C1 as stated fails on variant 1: its GET on the shop succeeds and returns the pen with
  the stored relative path \<^verbatim>\<open>/uploads/17-pen.png\<close>, which is not the absolute URL made
  of the request's scheme and host and that path.
\<close>

theorem get_v1_relative_image_counterexample:
  "status (fst (get_products_v1 ask shop)) = 200
   \<and> json (fst (get_products_v1 ask shop)) = JDocs [pen, pad]
   \<and> image_url pen = Some ''/uploads/17-pen.png''
   \<and> image_url pen \<noteq> Some (protocol ask @ ''://'' @ host ask @ ''/uploads/17-pen.png'')"
  by (simp add: get_products_v1_def find_all_def respond_def examples)

text \<open>
  C9, as the code has it. The two variants answer a GET on \<^verbatim>\<open>/products\<close> over the same
  world with the same status, always; their responses (status and body) are equal
  exactly when the store is connected and no stored record has an image.
\<close>

theorem get_variants_agree_iff:
  "status (fst (get_products_v1 req w)) = status (fst (get_products_v2 req w))
   \<and> (fst (get_products_v1 req w) = fst (get_products_v2 req w)
        \<longleftrightarrow> connected (db w) \<and> list_all (\<lambda>p. image_url p = None) (docs (db w)))"
proof (cases "connected (db w)")
  case True
  have "(docs (db w) = map (absolute req) (docs (db w)))
        = (map (absolute req) (docs (db w)) = docs (db w))" by (rule eq_commute)
  with True show ?thesis
    by (simp add: get_products_v1_def get_products_v2_def find_all_def respond_def
        map_absolute_fixed)
next
  case False
  then show ?thesis
    by (simp add: get_products_v1_def get_products_v2_def find_all_def respond_def
        internal_error_def)
qed

text \<open>
  C9 as amended, at two worlds: over the empty shop the two responses are equal, over
  the shop they are not.
\<close>

theorem get_variants_agree_iff_witness:
  "fst (get_products_v1 ask empty_shop) = fst (get_products_v2 ask empty_shop)
   \<and> fst (get_products_v1 ask shop) \<noteq> fst (get_products_v2 ask shop)"
  using get_variants_agree_iff [of ask empty_shop] get_variants_agree_iff [of ask shop]
  by (simp add: examples)

text \<open>
  C9 as stated fails: over the shop, variant 1 returns the pen with its relative path
  and variant 2 returns it with the absolute URL, so the two bodies differ.
\<close>

theorem get_variants_differ_counterexample:
  "json (fst (get_products_v1 ask shop)) = JDocs [pen, pad]
   \<and> json (fst (get_products_v2 ask shop)) =
       JDocs [pen\<lparr>image_url := Some ''http://shop.test/uploads/17-pen.png''\<rparr>, pad]
   \<and> fst (get_products_v1 ask shop) \<noteq> fst (get_products_v2 ask shop)"
  by (simp add: get_products_v1_def get_products_v2_def find_all_def respond_def
      absolute_def examples)

subsection \<open>Deleting a product\<close>

text \<open>
  Variant 2 on an existing record: the answer is 200 with the confirmation, the image
  file of the record (when it has one) is unlinked, a failure of that being logged, and
  the record is removed, so that a later GET does not list it.
\<close>

lemma delete_v2_existing:
  assumes "connected (db w)" and "castObjectId (params_id req) = Some i"
    and "find (\<lambda>p. doc_id p = i) (docs (db w)) = Some p"
  shows "delete_products_v2 req w =
          (respond 200 (JMessage ''Product deleted successfully''),
           (if truthy (image_url p)
            then unlink_logged ''Error deleting image:'' (the (image_url p)) w else w)
           \<lparr>db := (db w)\<lparr>docs := filter (\<lambda>q. doc_id q \<noteq> i) (docs (db w))\<rparr>\<rparr>)"
  using assms
  by (cases "image_url p")
     (simp_all add: delete_products_v2_def findById_def findByIdAndDelete_def
        unlink_logged_db)

lemma delete_v2_then_list:
  assumes "connected (db w)" and "castObjectId (params_id req) = Some i"
    and "i \<in> doc_id ` set (docs (db w))"
  shows "fst (get_products_v2 req' (snd (delete_products_v2 req w))) =
           respond 200 (JDocs (map (absolute req')
             (filter (\<lambda>q. doc_id q \<noteq> i) (docs (db w)))))"
    and "i \<notin> doc_id ` set (filter (\<lambda>q. doc_id q \<noteq> i) (docs (db w)))"
proof -
  from assms(3) obtain p where p: "find (\<lambda>p. doc_id p = i) (docs (db w)) = Some p"
    using find_present by blast
  show "fst (get_products_v2 req' (snd (delete_products_v2 req w))) =
           respond 200 (JDocs (map (absolute req')
             (filter (\<lambda>q. doc_id q \<noteq> i) (docs (db w)))))"
    using assms(1) by (simp add: delete_v2_existing [OF assms(1,2) p] get_products_v2_def
        find_all_def unlink_logged_db)
  show "i \<notin> doc_id ` set (filter (\<lambda>q. doc_id q \<noteq> i) (docs (db w)))"
    by auto
qed

text \<open>Variant 1 never touches the upload directory or the console when it deletes.\<close>

lemma delete_v1_image_store:
  "files (snd (delete_products_v1 req w)) = files w
   \<and> console (snd (delete_products_v1 req w)) = console w"
  by (simp add: delete_products_v1_def findByIdAndDelete_def split: option.splits)

text \<open>
  C2 holds on variant 2 and fails on variant 1. The DELETE for the pen on the shop:
  variant 1 answers 200 and removes the record, but makes no attempt on the image file,
  which is still in the upload directory, and writes nothing to the console; variant 2,
  on the same request, leaves the upload directory empty.
\<close>

theorem delete_v1_leaves_image_file:
  "delete_products_v1 ask shop =
     (respond 200 (JMessage ''Product deleted successfully''),
      shop\<lparr>db := (db shop)\<lparr>docs := [pad]\<rparr>\<rparr>)
   \<and> files (snd (delete_products_v1 ask shop)) = [''/uploads/17-pen.png'']
   \<and> console (snd (delete_products_v1 ask shop)) = []
   \<and> files (snd (delete_products_v2 ask shop)) = []"
  by (simp add: delete_products_v1_def delete_products_v2_def findById_def
      findByIdAndDelete_def unlink_logged_def unlink_def examples)

subsection \<open>Replacing an image\<close>

text \<open>
  Variant 2, a PUT with a file on an existing record: whatever the upload directory
  holds and whatever may be removed from it, the answer is 200 with the updated record,
  its image being the absolute URL of the new file.
\<close>

lemma put_v2_replaces_image:
  assumes "connected (db w)" and "castObjectId (params_id req) = Some i"
    and "find (\<lambda>p. doc_id p = i) (docs (db w)) = Some p"
    and "image_file req = Some originalname"
  shows "fst (put_products_v2 now req w) =
           respond 200 (JDoc (absolute req
             (merge_fields \<lparr>upd_name = body_name (body req), upd_price = body_price (body req),
                            upd_description = body_description (body req),
                            upd_image = Some (''/uploads/'' @ filename now originalname)\<rparr> p)))"
  using assms
  by (cases "image_url p")
     (simp_all add: put_products_v2_def upload_single_some new_image_v2_def findById_def
        findByIdAndUpdate_def unlink_logged_db)

text \<open>What variant 2 writes to the console is the outcome of the removal, and nothing else.\<close>

lemma put_v2_cleanup_logged:
  assumes "connected (db w)" and "castObjectId (params_id req) = Some i"
    and "find (\<lambda>p. doc_id p = i) (docs (db w)) = Some p"
    and "image_url p = Some old" and "old \<noteq> []" and "image_file req = Some originalname"
  shows "console (snd (put_products_v2 now req w)) =
           console w @
           (case fst (unlink old
                   (w\<lparr>files := List.insert (''/uploads/'' @ filename now originalname) (files w)\<rparr>)) of
              None \<Rightarrow> [] | Some err \<Rightarrow> [LogFs ''Error deleting old image:'' err])"
  using assms
  by (simp add: put_products_v2_def upload_single_some new_image_v2_def findById_def
      findByIdAndUpdate_def unlink_logged_db unlink_logged_console)

text \<open>
  Variant 1, a PUT with a file on a record that has an image: the answer is always 500,
  whether or not the old file could have been removed, and the store is not updated.
\<close>

lemma put_v1_existing_image_fails:
  assumes "connected (db w)" and "castObjectId (params_id req) = Some i"
    and "find (\<lambda>p. doc_id p = i) (docs (db w)) = Some p"
    and "truthy (image_url p)" and "image_file req = Some originalname"
  shows "put_products_v1 now req w =
           (respond 500 (JError ReferenceError),
            w\<lparr>files := List.insert (''/uploads/'' @ filename now originalname) (files w)\<rparr>)"
  using assms
  by (simp add: put_products_v1_def upload_single_some new_image_v1_def findById_def)

text \<open>
  C3 holds on variant 2 and fails on variant 1. The PUT for the pen with the file
  \<^verbatim>\<open>new.png\<close> at time 42, on the shop whose old image file is missing: variant 1
  answers 500 (the ReferenceError of \<^verbatim>\<open>fs.unlink\<close>) and leaves the record as it was,
  with the new file stored; variant 2 answers 200 with the updated record, stores the new
  path and writes the failed removal to the console.
\<close>

theorem put_v1_new_image_fails:
  "put_products_v1 42 (ask\<lparr>image_file := Some ''new.png''\<rparr>) stale_shop =
     (respond 500 (JError ReferenceError), stale_shop\<lparr>files := [''/uploads/42-new.png'']\<rparr>)
   \<and> put_products_v2 42 (ask\<lparr>image_file := Some ''new.png''\<rparr>) stale_shop =
     (respond 200 (JDoc (pen\<lparr>image_url := Some ''http://shop.test/uploads/42-new.png''\<rparr>)),
      stale_shop\<lparr>db := (db stale_shop)
                    \<lparr>docs := [pen\<lparr>image_url := Some ''/uploads/42-new.png''\<rparr>, pad]\<rparr>,
                  files := [''/uploads/42-new.png''],
                  console := [LogFs ''Error deleting old image:'' ENOENT]\<rparr>)"
  by (simp add: put_products_v1_def put_products_v2_def upload_single_def new_image_v1_def
      new_image_v2_def findById_def findByIdAndUpdate_def unlink_logged_def unlink_def
      merge_fields_def absolute_def filename_def dec.simps digit_def examples)

subsection \<open>Orphaned files\<close>

text \<open>
  No handler of either variant removes a file that no record names, and none makes a
  record name a file other than the one uploaded with the request. So an orphaned file
  stays orphaned through every request that does not upload a file of the same path.
\<close>

lemma unlink_logged_other:
  "f \<in> set (files w) \<Longrightarrow> f \<noteq> p \<Longrightarrow> f \<in> set (files (unlink_logged msg p w))"
  by (simp add: unlink_logged_def unlink_def)

lemma find_in_set: "find P xs = Some x \<Longrightarrow> x \<in> set xs"
  by (auto simp: find_Some_iff intro: nth_mem)

lemma orphan_stays_delete_v2:
  assumes "orphaned f w"
  shows "orphaned f (snd (delete_products_v2 req w))"
proof (cases "findById (db w) (params_id req)")
  case (Inl err)
  with assms show ?thesis
    by (simp add: delete_products_v2_def internal_error_def orphaned_def)
next
  case (Inr r)
  show ?thesis
  proof (cases r)
    case None
    with Inr assms show ?thesis by (simp add: delete_products_v2_def)
  next
    case (Some p)
    with Inr obtain i where c: "connected (db w)"
      and ci: "castObjectId (params_id req) = Some i"
      and p: "find (\<lambda>p. doc_id p = i) (docs (db w)) = Some p"
      by (auto simp: findById_def split: if_splits option.splits)
    from p have "p \<in> set (docs (db w))" by (rule find_in_set)
    with assms have ne: "image_url p \<noteq> Some f" by (auto simp: orphaned_def list_all_iff)
    from assms have "list_all (\<lambda>p. image_url p \<noteq> Some f)
        (filter (\<lambda>q. doc_id q \<noteq> i) (docs (db w)))"
      by (auto simp: orphaned_def list_all_iff)
    moreover from assms ne have "f \<in> set (files (if truthy (image_url p)
            then unlink_logged ''Error deleting image:'' (the (image_url p)) w else w))"
      by (cases "image_url p") (auto simp: orphaned_def intro: unlink_logged_other)
    ultimately show ?thesis
      by (simp add: delete_v2_existing [OF c ci p] orphaned_def)
  qed
qed

lemma unreferenced_save:
  "list_all (\<lambda>p. image_url p \<noteq> Some f) (docs st) \<Longrightarrow> img \<noteq> Some f \<Longrightarrow>
   save st fm img = Inr (doc, st') \<Longrightarrow> list_all (\<lambda>p. image_url p \<noteq> Some f) (docs st')"
  by (auto simp: save_def Let_def split: option.splits if_splits)

lemma unreferenced_update:
  "list_all (\<lambda>p. image_url p \<noteq> Some f) (docs st) \<Longrightarrow> upd_image u \<noteq> Some f \<Longrightarrow>
   findByIdAndUpdate st id_text u = Inr (r, st') \<Longrightarrow>
   list_all (\<lambda>p. image_url p \<noteq> Some f) (docs st')"
  by (auto simp: findByIdAndUpdate_def merge_fields_def list_all_iff
      split: option.splits if_splits)

lemma unreferenced_delete:
  "list_all (\<lambda>p. image_url p \<noteq> Some f) (docs st) \<Longrightarrow>
   findByIdAndDelete st id_text = Inr (r, st') \<Longrightarrow>
   list_all (\<lambda>p. image_url p \<noteq> Some f) (docs st')"
  by (auto simp: findByIdAndDelete_def list_all_iff split: option.splits if_splits)

lemma upload_single_files:
  "f \<in> set (files w) \<Longrightarrow> f \<in> set (files (snd (upload_single now req w)))"
  by (simp add: upload_single_def split: option.splits)

lemma upload_single_result:
  "upload_single now req w = (file, w') \<Longrightarrow>
   imageUrl file = upload_path now req \<and> db w' = db w \<and> set (files w) \<subseteq> set (files w')"
  by (auto simp: upload_single_def imageUrl_def upload_path_def split: option.splits)

lemma orphan_stays_post:
  assumes "orphaned f w" and "upload_path now req \<noteq> Some f"
  shows "orphaned f (snd (post_products_v1 now req w))"
    and "orphaned f (snd (post_products_v2 now req w))"
proof -
  obtain upl w1 where u: "upload_single now req w = (upl, w1)"
    by (cases "upload_single now req w")
  note r = upload_single_result [OF u]
  from assms r have o1: "orphaned f w1" and i: "imageUrl upl \<noteq> Some f"
    by (auto simp: orphaned_def)
  show "orphaned f (snd (post_products_v1 now req w))"
  proof (cases "save (db w1) (body req) (imageUrl upl)")
    case (Inl err)
    with u o1 show ?thesis by (simp add: post_products_v1_def)
  next
    case (Inr x)
    obtain doc st where x: "x = (doc, st)" by (cases x)
    from o1 i Inr x have "list_all (\<lambda>p. image_url p \<noteq> Some f) (docs st)"
      using unreferenced_save [of f "db w1" "imageUrl upl" "body req" doc st]
      by (simp add: orphaned_def)
    with u Inr x o1 show ?thesis by (simp add: post_products_v1_def orphaned_def)
  qed
  show "orphaned f (snd (post_products_v2 now req w))"
  proof (cases "save (db w1) (body req) (imageUrl upl)")
    case (Inl err)
    with u o1 show ?thesis
      by (simp add: post_products_v2_def internal_error_def orphaned_def)
  next
    case (Inr x)
    obtain doc st where x: "x = (doc, st)" by (cases x)
    from o1 i Inr x have "list_all (\<lambda>p. image_url p \<noteq> Some f) (docs st)"
      using unreferenced_save [of f "db w1" "imageUrl upl" "body req" doc st]
      by (simp add: orphaned_def)
    with u Inr x o1 show ?thesis by (simp add: post_products_v2_def orphaned_def)
  qed
qed

lemma orphan_stays_delete_v1:
  assumes "orphaned f w"
  shows "orphaned f (snd (delete_products_v1 req w))"
proof (cases "findByIdAndDelete (db w) (params_id req)")
  case (Inl err)
  with assms show ?thesis by (simp add: delete_products_v1_def)
next
  case (Inr x)
  obtain r st where x: "x = (r, st)" by (cases x)
  from assms Inr x have "list_all (\<lambda>p. image_url p \<noteq> Some f) (docs st)"
    using unreferenced_delete [of f "db w" "params_id req" r st] by (simp add: orphaned_def)
  with assms Inr x show ?thesis
    by (cases r) (simp_all add: delete_products_v1_def orphaned_def)
qed

lemma new_image_v1_result:
  "upload_single now req w = (upl, w1) \<Longrightarrow> new_image_v1 req upl w1 = Inr u \<Longrightarrow>
   upd_image u = upload_path now req"
  by (auto simp: new_image_v1_def upload_single_def upload_path_def Let_def
      split: option.splits sum.splits if_splits)

lemma new_image_v2_result:
  assumes "upload_single now req w = (upl, w1)" and "new_image_v2 req upl w1 = Inr (u, w2)"
    and "orphaned f w1"
  shows "upd_image u = upload_path now req \<and> db w2 = db w1 \<and> f \<in> set (files w2)"
proof (cases upl)
  case None
  with assms show ?thesis
    by (auto simp: new_image_v2_def upload_single_def upload_path_def orphaned_def
        split: option.splits)
next
  case (Some fn)
  with assms(1) have up: "upload_path now req = Some (''/uploads/'' @ fn)"
    by (auto simp: upload_single_def upload_path_def split: option.splits)
  show ?thesis
  proof (cases "findById (db w1) (params_id req)")
    case (Inl err)
    with Some assms(2) show ?thesis by (simp add: new_image_v2_def)
  next
    case (Inr r)
    show ?thesis
    proof (cases r)
      case None
      with Inr Some assms up show ?thesis
        by (auto simp: new_image_v2_def orphaned_def)
    next
      case (Some p)
      with Inr obtain i where "find (\<lambda>p. doc_id p = i) (docs (db w1)) = Some p"
        by (auto simp: findById_def split: if_splits option.splits)
      then have "p \<in> set (docs (db w1))" by (rule find_in_set)
      with assms(3) have ne: "image_url p \<noteq> Some f"
        by (auto simp: orphaned_def list_all_iff)
      from assms(3) have fin: "f \<in> set (files w1)" by (simp add: orphaned_def)
      from Some Inr \<open>upl = Some fn\<close> assms(2) up ne fin show ?thesis
        by (cases "image_url p")
           (auto simp: new_image_v2_def unlink_logged_db intro: unlink_logged_other
              split: if_splits)
    qed
  qed
qed

lemma orphan_stays_put_v1:
  assumes "orphaned f w" and "upload_path now req \<noteq> Some f"
  shows "orphaned f (snd (put_products_v1 now req w))"
proof -
  obtain upl w1 where u: "upload_single now req w = (upl, w1)"
    by (cases "upload_single now req w")
  note r = upload_single_result [OF u]
  from assms r have o1: "orphaned f w1" by (auto simp: orphaned_def)
  show ?thesis
  proof (cases "new_image_v1 req upl w1")
    case (Inl err)
    with u o1 show ?thesis by (simp add: put_products_v1_def)
  next
    case (Inr upd)
    with u assms(2) have ui: "upd_image upd \<noteq> Some f"
      using new_image_v1_result [OF u Inr] by simp
    show ?thesis
    proof (cases "findByIdAndUpdate (db w1) (params_id req) upd")
      case (Inl err)
      with u Inr o1 show ?thesis by (simp add: put_products_v1_def)
    next
      case (Inr x)
      obtain res st where x: "x = (res, st)" by (cases x)
      from o1 ui Inr x have "list_all (\<lambda>p. image_url p \<noteq> Some f) (docs st)"
        using unreferenced_update [of f "db w1" upd "params_id req" res st]
        by (simp add: orphaned_def)
      with u \<open>new_image_v1 req upl w1 = Inr upd\<close> Inr x o1 show ?thesis
        by (cases res) (simp_all add: put_products_v1_def orphaned_def)
    qed
  qed
qed

lemma orphan_stays_put_v2:
  assumes "orphaned f w" and "upload_path now req \<noteq> Some f"
  shows "orphaned f (snd (put_products_v2 now req w))"
proof -
  obtain upl w1 where u: "upload_single now req w = (upl, w1)"
    by (cases "upload_single now req w")
  note r = upload_single_result [OF u]
  from assms r have o1: "orphaned f w1" by (auto simp: orphaned_def)
  show ?thesis
  proof (cases "new_image_v2 req upl w1")
    case (Inl err)
    with u o1 show ?thesis
      by (simp add: put_products_v2_def internal_error_def orphaned_def)
  next
    case (Inr y)
    obtain upd w2 where y: "y = (upd, w2)" by (cases y)
    from Inr y have n: "new_image_v2 req upl w1 = Inr (upd, w2)" by simp
    note nr = new_image_v2_result [OF u n o1]
    from nr o1 have o2: "orphaned f w2" by (simp add: orphaned_def)
    from nr assms(2) have ui: "upd_image upd \<noteq> Some f" by simp
    show ?thesis
    proof (cases "findByIdAndUpdate (db w2) (params_id req) upd")
      case (Inl err)
      with u n o2 show ?thesis
        by (simp add: put_products_v2_def internal_error_def orphaned_def)
    next
      case (Inr x)
      obtain res st where x: "x = (res, st)" by (cases x)
      from o2 ui Inr x have "list_all (\<lambda>p. image_url p \<noteq> Some f) (docs st)"
        using unreferenced_update [of f "db w2" upd "params_id req" res st]
        by (simp add: orphaned_def)
      with u n Inr x o2 show ?thesis
        by (cases res) (simp_all add: put_products_v2_def orphaned_def)
    qed
  qed
qed


lemma orphan_stays_serve:
  assumes "orphaned f w" and "stored_as c \<noteq> Some f"
  shows "orphaned f (snd (serve_v1 c w))" and "orphaned f (snd (serve_v2 c w))"
proof -
  show "orphaned f (snd (serve_v1 c w))"
  proof (cases c)
    case (Post now req)
    with assms show ?thesis by (simp add: orphan_stays_post)
  next
    case (Get req)
    with assms show ?thesis
      by (simp add: get_products_v1_def split: sum.splits)
  next
    case (Put now req)
    with assms show ?thesis by (simp add: orphan_stays_put_v1)
  next
    case (Delete req)
    with assms show ?thesis by (simp add: orphan_stays_delete_v1)
  qed
  show "orphaned f (snd (serve_v2 c w))"
  proof (cases c)
    case (Post now req)
    with assms show ?thesis by (simp add: orphan_stays_post)
  next
    case (Get req)
    with assms show ?thesis
      by (simp add: get_products_v2_def internal_error_def orphaned_def split: sum.splits)
  next
    case (Put now req)
    with assms show ?thesis by (simp add: orphan_stays_put_v2)
  next
    case (Delete req)
    with assms show ?thesis by (simp add: orphan_stays_delete_v2)
  qed
qed

lemma orphan_stays_run_v1:
  "orphaned f w \<Longrightarrow> list_all (\<lambda>c. stored_as c \<noteq> Some f) cs \<Longrightarrow> orphaned f (run_v1 cs w)"
  by (induction cs arbitrary: w) (simp_all add: orphan_stays_serve)

lemma orphan_stays_run_v2:
  "orphaned f w \<Longrightarrow> list_all (\<lambda>c. stored_as c \<noteq> Some f) cs \<Longrightarrow> orphaned f (run_v2 cs w)"
  by (induction cs arbitrary: w) (simp_all add: orphan_stays_serve)

text \<open>
  The file left by a PUT whose id names no record (malformed, or well formed and
  unknown to the connected store), when no record named its path before: it is orphaned
  after the request, and stays so whatever calls follow, as long as none uploads a file
  of the same path.
\<close>

lemma put_unknown_id_orphan_forever:
  assumes "castObjectId (params_id req) = None
           \<or> (connected (db w) \<and> castObjectId (params_id req) = Some i
               \<and> i \<notin> doc_id ` set (docs (db w)))"
    and "image_file req = Some originalname"
    and "list_all (\<lambda>p. image_url p \<noteq> Some (''/uploads/'' @ filename now originalname))
           (docs (db w))"
    and "list_all (\<lambda>c. stored_as c \<noteq> Some (''/uploads/'' @ filename now originalname)) cs"
  shows "orphaned (''/uploads/'' @ filename now originalname)
           (run_v1 cs (snd (put_products_v1 now req w)))"
    and "orphaned (''/uploads/'' @ filename now originalname)
           (run_v2 cs (snd (put_products_v2 now req w)))"
proof -
  have "orphaned (''/uploads/'' @ filename now originalname) (snd (put_products_v1 now req w))"
    using assms(1)
  proof
    assume "castObjectId (params_id req) = None"
    with assms(2,3) show ?thesis
      by (simp add: put_products_v1_def upload_single_some new_image_v1_def findById_def
          orphaned_def)
  next
    assume a: "connected (db w) \<and> castObjectId (params_id req) = Some i
               \<and> i \<notin> doc_id ` set (docs (db w))"
    then have "find (\<lambda>p. doc_id p = i) (docs (db w)) = None" by (simp add: find_absent)
    with a assms(2,3) show ?thesis
      by (simp add: put_products_v1_def upload_single_some new_image_v1_def findById_def
          findByIdAndUpdate_def orphaned_def)
  qed
  then show "orphaned (''/uploads/'' @ filename now originalname)
           (run_v1 cs (snd (put_products_v1 now req w)))"
    using assms(4) by (rule orphan_stays_run_v1)
  have "orphaned (''/uploads/'' @ filename now originalname) (snd (put_products_v2 now req w))"
    using assms(1)
  proof
    assume "castObjectId (params_id req) = None"
    with assms(2,3) show ?thesis
      by (simp add: put_products_v2_def upload_single_some new_image_v2_def findById_def
          internal_error_def orphaned_def)
  next
    assume a: "connected (db w) \<and> castObjectId (params_id req) = Some i
               \<and> i \<notin> doc_id ` set (docs (db w))"
    then have "find (\<lambda>p. doc_id p = i) (docs (db w)) = None" by (simp add: find_absent)
    with a assms(2,3) show ?thesis
      by (simp add: put_products_v2_def upload_single_some new_image_v2_def findById_def
          findByIdAndUpdate_def orphaned_def)
  qed
  then show "orphaned (''/uploads/'' @ filename now originalname)
           (run_v2 cs (snd (put_products_v2 now req w)))"
    using assms(4) by (rule orphan_stays_run_v2)
qed

end
